theory Spec2Isabelle
  imports Main
begin

section \<open>BlueALSA dbus.c: method-call dispatcher\<close>

text \<open>
  A shallow embedding of \<^verbatim>\<open>src/dbus.c\<close>. C strings are \<open>string\<close>; a pointer that may be
  \<^verbatim>\<open>NULL\<close> is an \<open>option\<close> (\<open>None\<close> is \<^verbatim>\<open>NULL\<close>); \<^verbatim>\<open>strcmp(a, b) != 0\<close> is \<open>a \<noteq> b\<close>.
  A handler is a C function pointer \<^verbatim>\<open>void (*)(GDBusMethodInvocation *, void *)\<close>: it is
  modelled by what calling it does to the state \<open>'s\<close> that handlers act on (the pending
  invocations and the application's data). The user data pointer has type \<open>'u\<close>.
\<close>

type_synonym invocation = nat

type_synonym ('u, 's) handler = "invocation \<Rightarrow> 'u \<Rightarrow> 's \<Rightarrow> 's"

text \<open>
  \<^verbatim>\<open>GDBusMethodCallDispatcher\<close>: the C fields \<^verbatim>\<open>sender\<close>, \<^verbatim>\<open>path\<close>, \<^verbatim>\<open>interface\<close>, \<^verbatim>\<open>method\<close>,
  \<^verbatim>\<open>handler\<close> and \<^verbatim>\<open>asynchronous_call\<close>, here with the prefix \<open>d_\<close>.
\<close>

record ('u, 's) GDBusMethodCallDispatcher =
  d_sender :: "string option"
  d_path :: "string option"
  d_interface :: "string option"
  d_method :: "string option"
  d_handler :: "('u, 's) handler option"
  d_asynchronous_call :: bool

text \<open>\<^verbatim>\<open>struct dispatch_method_caller_data\<close>.\<close>

record ('u, 's) dispatch_method_caller_data =
  c_handler :: "('u, 's) handler"
  c_invocation :: invocation
  c_userdata :: 'u

text \<open>
  What the code does to its surroundings, in program order: the messages given to
  \<^verbatim>\<open>debug()\<close> and \<^verbatim>\<open>error()\<close> (format string and arguments; \<open>Strerror n\<close> stands for the
  text \<^verbatim>\<open>strerror(n)\<close>) and the calls of \<^verbatim>\<open>pthread_create\<close> and \<^verbatim>\<open>pthread_detach\<close> with
  the value each call returned.
\<close>

datatype log_arg = S string | Strerror int

datatype event =
    Debug string "log_arg list"
  | Error string "log_arg list"
  | Pthread_create int
  | Pthread_detach int

text \<open>A thread started on \<^verbatim>\<open>dispatch_method_caller\<close> with the given argument.\<close>

record ('u, 's) pthread =
  start_arg :: "('u, 's) dispatch_method_caller_data"
  detached :: bool

text \<open>
  The state the dispatcher works in: the trace of events, the live copies made by
  \<^verbatim>\<open>g_memdup2\<close>, the threads created so far, and the state \<open>app\<close> the handlers act on.
\<close>

record ('u, 's) world =
  trace :: "event list"
  heap :: "('u, 's) dispatch_method_caller_data list"
  threads :: "('u, 's) pthread list"
  app :: 's

text \<open>
  The operating system's answers: the values \<^verbatim>\<open>pthread_create\<close> and \<^verbatim>\<open>pthread_detach\<close>
  return (0 on success, an error number otherwise).
\<close>

record os =
  pthread_create_ret :: int
  pthread_detach_ret :: int

definition debug :: "string \<Rightarrow> log_arg list \<Rightarrow> ('u, 's) world \<Rightarrow> ('u, 's) world" where
  "debug fmt args w = w\<lparr>trace := trace w @ [Debug fmt args]\<rparr>"

definition error :: "string \<Rightarrow> log_arg list \<Rightarrow> ('u, 's) world \<Rightarrow> ('u, 's) world" where
  "error fmt args w = w\<lparr>trace := trace w @ [Error fmt args]\<rparr>"

definition g_memdup2 ::
  "('u, 's) dispatch_method_caller_data \<Rightarrow> ('u, 's) world \<Rightarrow>
   ('u, 's) dispatch_method_caller_data \<times> ('u, 's) world" where
  "g_memdup2 data w = (data, w\<lparr>heap := heap w @ [data]\<rparr>)"

definition g_free ::
  "('u, 's) dispatch_method_caller_data \<Rightarrow> ('u, 's) world \<Rightarrow> ('u, 's) world" where
  "g_free data w = w\<lparr>heap := remove1 data (heap w)\<rparr>"

text \<open>
  \<^verbatim>\<open>pthread_create\<close> returns its result and the handle of the new thread (its index in
  \<open>threads\<close>); the thread exists only if the result is 0.
\<close>

definition pthread_create ::
  "os \<Rightarrow> ('u, 's) dispatch_method_caller_data \<Rightarrow> ('u, 's) world \<Rightarrow>
   int \<times> nat \<times> ('u, 's) world" where
  "pthread_create sys arg w =
     (let ret = pthread_create_ret sys;
          w1 = w\<lparr>trace := trace w @ [Pthread_create ret]\<rparr>
      in if ret = 0
         then (ret, length (threads w1),
               w1\<lparr>threads := threads w1 @ [\<lparr>start_arg = arg, detached = False\<rparr>]\<rparr>)
         else (ret, length (threads w1), w1))"

definition pthread_detach :: "os \<Rightarrow> nat \<Rightarrow> ('u, 's) world \<Rightarrow> int \<times> ('u, 's) world" where
  "pthread_detach sys thread w =
     (let ret = pthread_detach_ret sys;
          w1 = w\<lparr>trace := trace w @ [Pthread_detach ret]\<rparr>
      in if ret = 0 \<and> thread < length (threads w1)
         then (ret, w1\<lparr>threads := (threads w1)[thread := (threads w1 ! thread)\<lparr>detached := True\<rparr>]\<rparr>)
         else (ret, w1))"

text \<open>
  \<^verbatim>\<open>dispatch_method_caller\<close>, the body of the worker thread: call the handler, free the
  copied data.
\<close>

definition dispatch_method_caller ::
  "('u, 's) dispatch_method_caller_data \<Rightarrow> ('u, 's) world \<Rightarrow> ('u, 's) world" where
  "dispatch_method_caller data w =
     g_free data (w\<lparr>app := c_handler data (c_invocation data) (c_userdata data) (app w)\<rparr>)"

text \<open>
  \<^verbatim>\<open>g_dbus_dispatch_method_call\<close>. The array of dispatchers is a list; the loop reads entries
  until one has a \<^verbatim>\<open>NULL\<close> handler. An array with no such entry makes the C loop read past
  its end, which is undefined: the model returns \<open>None\<close> there. Otherwise the result is
  the returned boolean and the new state.
\<close>

fun g_dbus_dispatch_method_call ::
  "os \<Rightarrow> ('u, 's) GDBusMethodCallDispatcher list \<Rightarrow>
   string \<Rightarrow> string \<Rightarrow> string \<Rightarrow> string \<Rightarrow> invocation \<Rightarrow> 'u \<Rightarrow>
   ('u, 's) world \<Rightarrow> (bool \<times> ('u, 's) world) option" where
  "g_dbus_dispatch_method_call sys [] sender path interface method invocation userdata w = None"
| "g_dbus_dispatch_method_call sys (dispatcher # dispatchers)
     sender path interface method invocation userdata w =
     (case d_handler dispatcher of
        None \<Rightarrow> Some (False, w)
      | Some handler \<Rightarrow>
          if d_sender dispatcher \<noteq> None \<and> d_sender dispatcher \<noteq> Some sender then
            g_dbus_dispatch_method_call sys dispatchers
              sender path interface method invocation userdata w
          else if d_path dispatcher \<noteq> None \<and> d_path dispatcher \<noteq> Some path then
            g_dbus_dispatch_method_call sys dispatchers
              sender path interface method invocation userdata w
          else if d_interface dispatcher \<noteq> None \<and> d_interface dispatcher \<noteq> Some interface then
            g_dbus_dispatch_method_call sys dispatchers
              sender path interface method invocation userdata w
          else if d_method dispatcher \<noteq> None \<and> d_method dispatcher \<noteq> Some method then
            g_dbus_dispatch_method_call sys dispatchers
              sender path interface method invocation userdata w
          else
            let w1 = debug ''Called: %s.%s() on %s'' [S interface, S method, S path] w in
            if \<not> d_asynchronous_call dispatcher then
              Some (True, w1\<lparr>app := handler invocation userdata (app w1)\<rparr>)
            else
              let data = \<lparr>c_handler = handler, c_invocation = invocation,
                          c_userdata = userdata\<rparr>;
                  (ptr, w2) = g_memdup2 data w1;
                  (ret, thread, w3) = pthread_create sys ptr w2
              in if ret \<noteq> 0 then
                   Some (False,
                     error ''Couldn't create D-Bus call dispatcher: %s'' [Strerror ret] w3)
                 else
                   let (ret, w4) = pthread_detach sys thread w3
                   in if ret \<noteq> 0 then
                        Some (False,
                          error ''Couldn't detach D-Bus call dispatcher: %s'' [Strerror ret] w4)
                      else Some (True, w4))"

text \<open>
  \<^verbatim>\<open>GDBusInterfaceSkeletonEx\<close>, with the two fields \<^verbatim>\<open>interface_skeleton_ex_method_call\<close>
  reads: the dispatchers of its vtable and the user data.
\<close>

record ('u, 's) GDBusInterfaceSkeletonEx =
  vtable_dispatchers :: "('u, 's) GDBusMethodCallDispatcher list"
  iface_userdata :: 'u

text \<open>
  \<^verbatim>\<open>interface_skeleton_ex_method_call\<close>, the \<^verbatim>\<open>method_call\<close> entry of the vtable given to GIO.
  It returns nothing: the result is the new state.
\<close>

definition interface_skeleton_ex_method_call ::
  "os \<Rightarrow> ('u, 's) GDBusInterfaceSkeletonEx \<Rightarrow>
   string \<Rightarrow> string \<Rightarrow> string \<Rightarrow> string \<Rightarrow> invocation \<Rightarrow>
   ('u, 's) world \<Rightarrow> ('u, 's) world option" where
  "interface_skeleton_ex_method_call sys iface sender path interface method invocation w =
     (case g_dbus_dispatch_method_call sys (vtable_dispatchers iface)
             sender path interface method invocation (iface_userdata iface) w of
        None \<Rightarrow> None
      | Some (ok, w') \<Rightarrow>
          if \<not> ok then
            Some (error ''Couldn't dispatch D-Bus method call: %s.%s()''
                    [S interface, S method] w')
          else Some w')"

subsection \<open>The specification's notions\<close>

text \<open>
  An entry matches a call when each of its four fields is unset or equal to the call's;
  the table proper is the entries before the first one with no handler; the first match is
  the earliest entry of the table proper that matches.
\<close>

definition entry_matches ::
  "('u, 's) GDBusMethodCallDispatcher \<Rightarrow> string \<Rightarrow> string \<Rightarrow> string \<Rightarrow> string \<Rightarrow> bool" where
  "entry_matches d sender path interface method =
     ((d_sender d = None \<or> d_sender d = Some sender) \<and>
      (d_path d = None \<or> d_path d = Some path) \<and>
      (d_interface d = None \<or> d_interface d = Some interface) \<and>
      (d_method d = None \<or> d_method d = Some method))"

definition is_sentinel :: "('u, 's) GDBusMethodCallDispatcher \<Rightarrow> bool" where
  "is_sentinel d = (case d_handler d of None \<Rightarrow> True | Some h \<Rightarrow> False)"

definition terminated :: "('u, 's) GDBusMethodCallDispatcher list \<Rightarrow> bool" where
  "terminated T = list_ex is_sentinel T"

definition first_match ::
  "('u, 's) GDBusMethodCallDispatcher list \<Rightarrow> string \<Rightarrow> string \<Rightarrow> string \<Rightarrow> string \<Rightarrow>
   ('u, 's) GDBusMethodCallDispatcher option" where
  "first_match T sender path interface method =
     find (\<lambda>d. entry_matches d sender path interface method)
       (takeWhile (\<lambda>d. \<not> is_sentinel d) T)"

section \<open>BlueALSA dbus.c: blocking bus helpers\<close>

subsection \<open>Typed values\<close>

text \<open>
  GLib's \<^verbatim>\<open>GVariant\<close>, as far as the format strings of \<^verbatim>\<open>dbus.c\<close> need it: strings, object
  paths, booleans, 32-bit integers, variants, arrays (with their element type, so that an
  empty array has a type), dictionary entries and tuples.
\<close>

datatype GVariantType =
    T_string
  | T_object_path
  | T_boolean
  | T_int32
  | T_variant
  | T_array GVariantType
  | T_dict_entry GVariantType GVariantType
  | T_tuple "GVariantType list"

datatype GVariant =
    V_string string
  | V_object_path string
  | V_boolean bool
  | V_int32 int
  | V_variant GVariant
  | V_array GVariantType "GVariant list"
  | V_dict_entry GVariant GVariant
  | V_tuple "GVariant list"

fun g_variant_type_dup_string :: "GVariantType \<Rightarrow> string" where
  "g_variant_type_dup_string T_string = ''s''"
| "g_variant_type_dup_string T_object_path = ''o''"
| "g_variant_type_dup_string T_boolean = ''b''"
| "g_variant_type_dup_string T_int32 = ''i''"
| "g_variant_type_dup_string T_variant = ''v''"
| "g_variant_type_dup_string (T_array t) = ''a'' @ g_variant_type_dup_string t"
| "g_variant_type_dup_string (T_dict_entry k v) =
     ''{'' @ g_variant_type_dup_string k @ g_variant_type_dup_string v @ ''}''"
| "g_variant_type_dup_string (T_tuple ts) =
     ''('' @ concat (map g_variant_type_dup_string ts) @ '')''"

fun g_variant_get_type :: "GVariant \<Rightarrow> GVariantType" where
  "g_variant_get_type (V_string s) = T_string"
| "g_variant_get_type (V_object_path s) = T_object_path"
| "g_variant_get_type (V_boolean b) = T_boolean"
| "g_variant_get_type (V_int32 i) = T_int32"
| "g_variant_get_type (V_variant v) = T_variant"
| "g_variant_get_type (V_array t xs) = T_array t"
| "g_variant_get_type (V_dict_entry k v) = T_dict_entry (g_variant_get_type k) (g_variant_get_type v)"
| "g_variant_get_type (V_tuple xs) = T_tuple (map g_variant_get_type xs)"

definition g_variant_get_type_string :: "GVariant \<Rightarrow> string" where
  "g_variant_get_type_string v = g_variant_type_dup_string (g_variant_get_type v)"

text \<open>
  \<^verbatim>\<open>GVariantIter\<close>: the children still to be visited. \<^verbatim>\<open>g_variant_iter_next\<close> gives the next
  child and the rest, or \<open>None\<close> at the end.
\<close>

type_synonym GVariantIter = "GVariant list"

definition g_variant_iter_next :: "GVariantIter \<Rightarrow> (GVariant \<times> GVariantIter) option" where
  "g_variant_iter_next it = (case it of [] \<Rightarrow> None | x # xs \<Rightarrow> Some (x, xs))"

text \<open>
  The three uses of \<^verbatim>\<open>g_variant_new\<close>. A \<^verbatim>\<open>GVariantBuilder\<close> of type \<^verbatim>\<open>a{sv}\<close> is the list of
  the (key, value) pairs added to it; a \<^verbatim>\<open>NULL\<close> given for \<^verbatim>\<open>as\<close> is the empty array.
\<close>

definition g_variant_new_ss :: "string \<Rightarrow> string \<Rightarrow> GVariant" where
  "g_variant_new_ss a b = V_tuple [V_string a, V_string b]"

definition g_variant_new_ssv :: "string \<Rightarrow> string \<Rightarrow> GVariant \<Rightarrow> GVariant" where
  "g_variant_new_ssv a b v = V_tuple [V_string a, V_string b, V_variant v]"

definition g_variant_new_sasvas ::
  "string \<Rightarrow> (string \<times> GVariant) list \<Rightarrow> string list option \<Rightarrow> GVariant" where
  "g_variant_new_sasvas a props strv =
     V_tuple [V_string a,
       V_array (T_dict_entry T_string T_variant)
         (map (\<lambda>(k, v). V_dict_entry (V_string k) (V_variant v)) props),
       V_array T_string (case strv of None \<Rightarrow> [] | Some xs \<Rightarrow> map V_string xs)]"

text \<open>
  The two uses of \<^verbatim>\<open>g_variant_get\<close>, each with the variable it writes as its result. GLib
  checks the value against the format string first (\<^verbatim>\<open>g_return_if_fail\<close>): on a \<^verbatim>\<open>NULL\<close>
  value or another type it returns without writing the variable, which stays \<^verbatim>\<open>NULL\<close>.
\<close>

definition g_variant_get_iter :: "GVariant option \<Rightarrow> string \<Rightarrow> GVariantIter option" where
  "g_variant_get_iter val format_string =
     (case val of
        Some (V_tuple [V_array t xs]) \<Rightarrow>
          if g_variant_get_type_string (V_tuple [V_array t xs]) = format_string
          then Some xs else None
      | _ \<Rightarrow> None)"

definition g_variant_get_v :: "GVariant option \<Rightarrow> string \<Rightarrow> GVariant option" where
  "g_variant_get_v val format_string =
     (case val of
        Some (V_tuple [V_variant x]) \<Rightarrow>
          if g_variant_get_type_string (V_tuple [V_variant x]) = format_string
          then Some x else None
      | _ \<Rightarrow> None)"

subsection \<open>Messages, errors and the connection\<close>

datatype GDBusMessageType =
    G_DBUS_MESSAGE_TYPE_METHOD_CALL
  | G_DBUS_MESSAGE_TYPE_METHOD_RETURN
  | G_DBUS_MESSAGE_TYPE_ERROR
  | G_DBUS_MESSAGE_TYPE_SIGNAL

record GDBusMessage =
  m_type :: GDBusMessageType
  m_destination :: "string option"
  m_path :: string
  m_interface :: string
  m_member :: string
  m_error_name :: string
  m_body :: "GVariant option"

text \<open>A \<^verbatim>\<open>GError\<close>: where it comes from (an error domain or a D-Bus error name) and its text.\<close>

datatype GError = GError string string

text \<open>
  Modelled from the spec: the macros \<^verbatim>\<open>DBUS_IFACE_PROPERTIES\<close> and
  \<^verbatim>\<open>DBUS_IFACE_OBJECT_MANAGER\<close> of \<^verbatim>\<open>dbus.h\<close>, which is not among the sources: the names of
  the properties contract and of the object-manager contract.
\<close>

definition DBUS_IFACE_PROPERTIES :: string where
  "DBUS_IFACE_PROPERTIES = ''org.freedesktop.DBus.Properties''"

definition DBUS_IFACE_OBJECT_MANAGER :: string where
  "DBUS_IFACE_OBJECT_MANAGER = ''org.freedesktop.DBus.ObjectManager''"

text \<open>
  The connection, seen from the helpers: what sending a message and waiting gives (a
  failure with its error, or the reply), and what emitting a signal gives (\<open>None\<close> for
  success, or the error).
\<close>

record GDBusConnection =
  send_result :: "GDBusMessage \<Rightarrow> GError + GDBusMessage"
  emit_result :: "GError option"

text \<open>A signal handed to \<^verbatim>\<open>g_dbus_connection_emit_signal\<close>.\<close>

record signal_emission =
  sig_destination :: "string option"
  sig_path :: string
  sig_interface :: string
  sig_name :: string
  sig_parameters :: GVariant

text \<open>
  The caller's memory and the bus, as the helpers change them: the \<^verbatim>\<open>GError *\<close> variables by
  address (\<open>None\<close> is \<^verbatim>\<open>NULL\<close>), the messages sent and the signals handed to the connection.
  An error out-parameter \<^verbatim>\<open>GError **error\<close> (here \<open>err\<close>) is \<open>None\<close> for \<^verbatim>\<open>NULL\<close> or the
  address of such a variable. The reference counts of messages are not part of the model.
\<close>

record bus =
  gerrors :: "nat \<Rightarrow> GError option"
  sent :: "GDBusMessage list"
  emit_signal_calls :: "signal_emission list"

definition g_set_error :: "nat option \<Rightarrow> GError \<Rightarrow> bus \<Rightarrow> bus" where
  "g_set_error err e b =
     (case err of
        None \<Rightarrow> b
      | Some a \<Rightarrow>
          (case gerrors b a of
             None \<Rightarrow> b\<lparr>gerrors := (gerrors b)(a := Some e)\<rparr>
           | Some old \<Rightarrow> b))"

definition g_dbus_message_new_method_call ::
  "string option \<Rightarrow> string \<Rightarrow> string \<Rightarrow> string \<Rightarrow> GDBusMessage" where
  "g_dbus_message_new_method_call name path interface method =
     \<lparr>m_type = G_DBUS_MESSAGE_TYPE_METHOD_CALL, m_destination = name, m_path = path,
      m_interface = interface, m_member = method, m_error_name = [], m_body = None\<rparr>"

definition g_dbus_message_set_body :: "GDBusMessage \<Rightarrow> GVariant \<Rightarrow> GDBusMessage" where
  "g_dbus_message_set_body msg v = msg\<lparr>m_body := Some v\<rparr>"

definition g_dbus_connection_send_message_with_reply_sync ::
  "GDBusConnection \<Rightarrow> GDBusMessage \<Rightarrow> nat option \<Rightarrow> bus \<Rightarrow> GDBusMessage option \<times> bus" where
  "g_dbus_connection_send_message_with_reply_sync conn msg err b =
     (let b1 = b\<lparr>sent := sent b @ [msg]\<rparr>
      in case send_result conn msg of
           Inl e \<Rightarrow> (None, g_set_error err e b1)
         | Inr rep \<Rightarrow> (Some rep, b1))"

text \<open>
  \<^verbatim>\<open>g_dbus_message_to_gerror\<close>: for a message of type error, set the error from the message's
  error name and the text in its body (the empty text when the body is not one string)
  and return true; for another message return false.
\<close>

definition g_dbus_message_to_gerror :: "GDBusMessage \<Rightarrow> nat option \<Rightarrow> bus \<Rightarrow> bool \<times> bus" where
  "g_dbus_message_to_gerror msg err b =
     (if m_type msg \<noteq> G_DBUS_MESSAGE_TYPE_ERROR then (False, b)
      else (True,
        g_set_error err
          (GError (m_error_name msg)
             (case m_body msg of Some (V_tuple [V_string text]) \<Rightarrow> text | _ \<Rightarrow> [])) b))"

definition g_dbus_connection_emit_signal ::
  "GDBusConnection \<Rightarrow> string option \<Rightarrow> string \<Rightarrow> string \<Rightarrow> string \<Rightarrow> GVariant \<Rightarrow>
   nat option \<Rightarrow> bus \<Rightarrow> bool \<times> bus" where
  "g_dbus_connection_emit_signal conn destination path interface name parameters err b =
     (let b1 = b\<lparr>emit_signal_calls := emit_signal_calls b @
                 [\<lparr>sig_destination = destination, sig_path = path, sig_interface = interface,
                   sig_name = name, sig_parameters = parameters\<rparr>]\<rparr>
      in case emit_result conn of
           None \<Rightarrow> (True, b1)
         | Some e \<Rightarrow> (False, g_set_error err e b1))"

subsection \<open>The helpers\<close>

text \<open>\<^verbatim>\<open>g_dbus_connection_emit_properties_changed\<close>.\<close>

definition g_dbus_connection_emit_properties_changed ::
  "GDBusConnection \<Rightarrow> string \<Rightarrow> string \<Rightarrow> (string \<times> GVariant) list \<Rightarrow> nat option \<Rightarrow>
   bus \<Rightarrow> bool \<times> bus" where
  "g_dbus_connection_emit_properties_changed conn path interface props err b =
     g_dbus_connection_emit_signal conn None
       path DBUS_IFACE_PROPERTIES ''PropertiesChanged''
       (g_variant_new_sasvas interface props None) err b"

text \<open>
  \<^verbatim>\<open>g_dbus_get_managed_objects\<close>: the returned iterator (\<open>None\<close> for \<^verbatim>\<open>NULL\<close>) and the new
  state.
\<close>

definition g_dbus_get_managed_objects ::
  "GDBusConnection \<Rightarrow> string \<Rightarrow> string \<Rightarrow> nat option \<Rightarrow> bus \<Rightarrow> GVariantIter option \<times> bus" where
  "g_dbus_get_managed_objects conn name path err b =
     (let msg = g_dbus_message_new_method_call (Some name) path
                  DBUS_IFACE_OBJECT_MANAGER ''GetManagedObjects''
      in case g_dbus_connection_send_message_with_reply_sync conn msg err b of
           (None, b1) \<Rightarrow> (None, b1)
         | (Some rep, b1) \<Rightarrow>
             if m_type rep = G_DBUS_MESSAGE_TYPE_ERROR then
               (None, snd (g_dbus_message_to_gerror rep err b1))
             else (g_variant_get_iter (m_body rep) ''(a{oa{sa{sv}}})'', b1))"

text \<open>\<^verbatim>\<open>g_dbus_get_property\<close>: the returned value (\<open>None\<close> for \<^verbatim>\<open>NULL\<close>) and the new state.\<close>

definition g_dbus_get_property ::
  "GDBusConnection \<Rightarrow> string \<Rightarrow> string \<Rightarrow> string \<Rightarrow> string \<Rightarrow> nat option \<Rightarrow> bus \<Rightarrow>
   GVariant option \<times> bus" where
  "g_dbus_get_property conn service path interface property err b =
     (let msg = g_dbus_message_set_body
                  (g_dbus_message_new_method_call (Some service) path
                     DBUS_IFACE_PROPERTIES ''Get'')
                  (g_variant_new_ss interface property)
      in case g_dbus_connection_send_message_with_reply_sync conn msg err b of
           (None, b1) \<Rightarrow> (None, b1)
         | (Some rep, b1) \<Rightarrow>
             if m_type rep = G_DBUS_MESSAGE_TYPE_ERROR then
               (None, snd (g_dbus_message_to_gerror rep err b1))
             else (g_variant_get_v (m_body rep) ''(v)'', b1))"

text \<open>
  \<^verbatim>\<open>g_dbus_set_property\<close>: the returned boolean and the new state. The last line of the C
  function is \<^verbatim>\<open>return error == NULL;\<close>, a test of the out-parameter itself.
\<close>

definition g_dbus_set_property ::
  "GDBusConnection \<Rightarrow> string \<Rightarrow> string \<Rightarrow> string \<Rightarrow> string \<Rightarrow> GVariant \<Rightarrow> nat option \<Rightarrow>
   bus \<Rightarrow> bool \<times> bus" where
  "g_dbus_set_property conn service path interface property val err b =
     (let msg = g_dbus_message_set_body
                  (g_dbus_message_new_method_call (Some service) path
                     DBUS_IFACE_PROPERTIES ''Set'')
                  (g_variant_new_ssv interface property val);
          b' = (case g_dbus_connection_send_message_with_reply_sync conn msg err b of
                  (None, b1) \<Rightarrow> b1
                | (Some rep, b1) \<Rightarrow>
                    if m_type rep = G_DBUS_MESSAGE_TYPE_ERROR then
                      snd (g_dbus_message_to_gerror rep err b1)
                    else b1)
      in (err = None, b'))"

section \<open>Example tables, calls and connections\<close>

text \<open>
  For the examples the state the handlers act on is the list of completed invocations,
  each with the name of the handler that completed it; the user data is \<open>()\<close>.
\<close>

definition h1 :: "(unit, (invocation \<times> string) list) handler" where
  "h1 invocation userdata s = s @ [(invocation, ''h1'')]"

definition h2 :: "(unit, (invocation \<times> string) list) handler" where
  "h2 invocation userdata s = s @ [(invocation, ''h2'')]"

definition sentinel :: "(unit, (invocation \<times> string) list) GDBusMethodCallDispatcher" where
  "sentinel = \<lparr>d_sender = None, d_path = None, d_interface = None, d_method = None,
     d_handler = None, d_asynchronous_call = False\<rparr>"

definition entry_get :: "(unit, (invocation \<times> string) list) GDBusMethodCallDispatcher" where
  "entry_get = \<lparr>d_sender = None, d_path = Some ''/org/x'', d_interface = None,
     d_method = Some ''Get'', d_handler = Some h1, d_asynchronous_call = False\<rparr>"

definition entry_any :: "(unit, (invocation \<times> string) list) GDBusMethodCallDispatcher" where
  "entry_any = \<lparr>d_sender = None, d_path = None, d_interface = None,
     d_method = None, d_handler = Some h2, d_asynchronous_call = True\<rparr>"

definition w0 :: "(unit, (invocation \<times> string) list) world" where
  "w0 = \<lparr>trace = [], heap = [], threads = [], app = []\<rparr>"

definition os_ok :: os where
  "os_ok = \<lparr>pthread_create_ret = 0, pthread_detach_ret = 0\<rparr>"

definition os_create_fails :: os where
  "os_create_fails = \<lparr>pthread_create_ret = 11, pthread_detach_ret = 0\<rparr>"

definition os_detach_fails :: os where
  "os_detach_fails = \<lparr>pthread_create_ret = 0, pthread_detach_ret = 22\<rparr>"

definition iface_get :: "(unit, (invocation \<times> string) list) GDBusInterfaceSkeletonEx" where
  "iface_get = \<lparr>vtable_dispatchers = [entry_get, sentinel], iface_userdata = ()\<rparr>"

definition reply_empty :: GDBusMessage where
  "reply_empty = \<lparr>m_type = G_DBUS_MESSAGE_TYPE_METHOD_RETURN, m_destination = None,
     m_path = [], m_interface = [], m_member = [], m_error_name = [],
     m_body = Some (V_tuple [])\<rparr>"

definition reply_error :: GDBusMessage where
  "reply_error = \<lparr>m_type = G_DBUS_MESSAGE_TYPE_ERROR, m_destination = None,
     m_path = [], m_interface = [], m_member = [],
     m_error_name = ''org.freedesktop.DBus.Error.InvalidArgs'',
     m_body = Some (V_tuple [V_string ''No such property''])\<rparr>"

definition reply_no_objects :: GDBusMessage where
  "reply_no_objects = \<lparr>m_type = G_DBUS_MESSAGE_TYPE_METHOD_RETURN, m_destination = None,
     m_path = [], m_interface = [], m_member = [], m_error_name = [],
     m_body = Some (V_tuple [V_array
       (T_dict_entry T_object_path
          (T_array (T_dict_entry T_string (T_array (T_dict_entry T_string T_variant))))) []])\<rparr>"

definition conn_replies :: "GDBusMessage \<Rightarrow> GDBusConnection" where
  "conn_replies rep = \<lparr>send_result = (\<lambda>msg. Inr rep), emit_result = None\<rparr>"

definition conn_closed :: GDBusConnection where
  "conn_closed = \<lparr>send_result = (\<lambda>msg. Inl (GError ''g-io-error-quark'' ''The connection is closed'')),
     emit_result = Some (GError ''g-io-error-quark'' ''The connection is closed'')\<rparr>"

definition b0 :: bus where
  "b0 = \<lparr>gerrors = (\<lambda>a. None), sent = [], emit_signal_calls = []\<rparr>"

section \<open>Properties\<close>

subsection \<open>Scanning the table\<close>

lemma dispatch_skip:
  "d_handler a = Some h \<Longrightarrow> \<not> entry_matches a sender path interface method \<Longrightarrow>
   g_dbus_dispatch_method_call sys (a # T) sender path interface method invocation userdata w =
   g_dbus_dispatch_method_call sys T sender path interface method invocation userdata w"
  by (auto simp: entry_matches_def)

lemma dispatch_hit:
  "d_handler a = Some h \<Longrightarrow> entry_matches a sender path interface method \<Longrightarrow>
   g_dbus_dispatch_method_call sys (a # T) sender path interface method invocation userdata w =
   g_dbus_dispatch_method_call sys [a] sender path interface method invocation userdata w"
  by (auto simp: entry_matches_def)

lemma first_match_Cons:
  "first_match (a # T) sender path interface method =
     (if is_sentinel a then None
      else if entry_matches a sender path interface method then Some a
      else first_match T sender path interface method)"
  by (simp add: first_match_def)

lemma is_sentinel_iff: "is_sentinel a \<longleftrightarrow> d_handler a = None"
  by (simp add: is_sentinel_def split: option.splits)

lemma dispatch_first_match:
  "first_match T sender path interface method = Some d \<Longrightarrow>
   g_dbus_dispatch_method_call sys T sender path interface method invocation userdata w =
   g_dbus_dispatch_method_call sys [d] sender path interface method invocation userdata w"
proof (induction T)
  case Nil
  then show ?case by (simp add: first_match_def)
next
  case (Cons a T)
  show ?case
  proof (cases "d_handler a")
    case None
    with Cons.prems show ?thesis by (simp add: first_match_Cons is_sentinel_iff)
  next
    case (Some h)
    show ?thesis
    proof (cases "entry_matches a sender path interface method")
      case True
      with Some Cons.prems have "d = a" by (simp add: first_match_Cons is_sentinel_iff)
      then show ?thesis using dispatch_hit[OF Some True] by simp
    next
      case False
      with Some Cons.prems have "first_match T sender path interface method = Some d"
        by (simp add: first_match_Cons is_sentinel_iff)
      from Cons.IH[OF this] show ?thesis
        by (simp only: dispatch_skip[OF Some False])
    qed
  qed
qed

lemma first_match_SomeD:
  "first_match T sender path interface method = Some d \<Longrightarrow>
   entry_matches d sender path interface method \<and> \<not> is_sentinel d \<and> d \<in> set T"
  unfolding first_match_def
  by (auto simp: find_Some_iff dest!: nth_mem dest: set_takeWhileD)

lemma dispatch_no_match:
  "terminated T \<Longrightarrow> first_match T sender path interface method = None \<Longrightarrow>
   g_dbus_dispatch_method_call sys T sender path interface method invocation userdata w =
     Some (False, w)"
proof (induction T)
  case Nil
  then show ?case by (simp add: terminated_def)
next
  case (Cons a T)
  show ?case
  proof (cases "d_handler a")
    case None
    then show ?thesis by simp
  next
    case (Some h)
    with Cons.prems have nm: "\<not> entry_matches a sender path interface method"
      and fm: "first_match T sender path interface method = None"
      and tm: "terminated T"
      by (auto simp: first_match_Cons is_sentinel_iff terminated_def split: if_splits)
    from Cons.IH[OF tm fm] show ?thesis
      by (simp only: dispatch_skip[OF Some nm])
  qed
qed

lemmas ex_defs = h1_def h2_def sentinel_def entry_get_def entry_any_def w0_def os_ok_def
  os_create_fails_def os_detach_fails_def iface_get_def

lemmas run_defs = debug_def error_def g_memdup2_def pthread_create_def pthread_detach_def
  Let_def entry_matches_def

subsection \<open>The dispatcher\<close>

text \<open>
  C1 (as amended). For every filter table and call for which some entry before the
  sentinel matches, the dispatcher selects the first such entry in table order: exactly
  that entry's handler is dispatched (called inline, or handed to a new detached thread
  when the entry is asynchronous), nothing of a later entry is done, and the result is
  true, provided that for an asynchronous entry creating and detaching the thread
  succeed.
\<close>

theorem dispatch_first_match_wins:
  assumes "first_match T sender path interface method = Some d"
    and "d_handler d = Some h"
    and "\<not> d_asynchronous_call d \<or> (pthread_create_ret sys = 0 \<and> pthread_detach_ret sys = 0)"
  shows "g_dbus_dispatch_method_call sys T sender path interface method invocation userdata w =
     Some (True,
       if \<not> d_asynchronous_call d then
         w\<lparr>trace := trace w @ [Debug ''Called: %s.%s() on %s'' [S interface, S method, S path]],
           app := h invocation userdata (app w)\<rparr>
       else
         w\<lparr>trace := trace w @ [Debug ''Called: %s.%s() on %s'' [S interface, S method, S path],
                               Pthread_create 0, Pthread_detach 0],
           heap := heap w @ [\<lparr>c_handler = h, c_invocation = invocation, c_userdata = userdata\<rparr>],
           threads := threads w @
             [\<lparr>start_arg = \<lparr>c_handler = h, c_invocation = invocation, c_userdata = userdata\<rparr>,
               detached = True\<rparr>]\<rparr>)"
proof -
  from first_match_SomeD[OF assms(1)]
  have m: "entry_matches d sender path interface method" by simp
  have "g_dbus_dispatch_method_call sys T sender path interface method invocation userdata w =
    g_dbus_dispatch_method_call sys [d] sender path interface method invocation userdata w"
    by (rule dispatch_first_match[OF assms(1)])
  also have "\<dots> = Some (True,
       if \<not> d_asynchronous_call d then
         w\<lparr>trace := trace w @ [Debug ''Called: %s.%s() on %s'' [S interface, S method, S path]],
           app := h invocation userdata (app w)\<rparr>
       else
         w\<lparr>trace := trace w @ [Debug ''Called: %s.%s() on %s'' [S interface, S method, S path],
                               Pthread_create 0, Pthread_detach 0],
           heap := heap w @ [\<lparr>c_handler = h, c_invocation = invocation, c_userdata = userdata\<rparr>],
           threads := threads w @
             [\<lparr>start_arg = \<lparr>c_handler = h, c_invocation = invocation, c_userdata = userdata\<rparr>,
               detached = True\<rparr>]\<rparr>)"
    using m assms(2,3) by (auto simp: run_defs nth_append)
  finally show ?thesis .
qed

theorem dispatch_first_match_wins_witness:
  "first_match [entry_get, entry_any, sentinel] ''s'' ''/org/x'' ''i'' ''Get'' = Some entry_get \<and>
   d_handler entry_get = Some h1 \<and> \<not> d_asynchronous_call entry_get \<and>
   g_dbus_dispatch_method_call os_ok [entry_get, entry_any, sentinel]
       ''s'' ''/org/x'' ''i'' ''Get'' 7 () w0 =
     Some (True,
       \<lparr>trace = [Debug ''Called: %s.%s() on %s'' [S ''i'', S ''Get'', S ''/org/x'']],
        heap = [], threads = [], app = [(7, ''h1'')]\<rparr>) \<and>
   first_match [entry_get, entry_any, sentinel] ''s'' ''/org/x'' ''i'' ''Set'' = Some entry_any \<and>
   d_handler entry_any = Some h2 \<and> d_asynchronous_call entry_any \<and>
   pthread_create_ret os_ok = 0 \<and> pthread_detach_ret os_ok = 0 \<and>
   g_dbus_dispatch_method_call os_ok [entry_get, entry_any, sentinel]
       ''s'' ''/org/x'' ''i'' ''Set'' 7 () w0 =
     Some (True,
       \<lparr>trace = [Debug ''Called: %s.%s() on %s'' [S ''i'', S ''Set'', S ''/org/x''],
                 Pthread_create 0, Pthread_detach 0],
        heap = [\<lparr>c_handler = h2, c_invocation = 7, c_userdata = ()\<rparr>],
        threads = [\<lparr>start_arg = \<lparr>c_handler = h2, c_invocation = 7, c_userdata = ()\<rparr>,
                    detached = True\<rparr>],
        app = []\<rparr>)"
proof -
  have fm: "first_match [entry_get, entry_any, sentinel] ''s'' ''/org/x'' ''i'' ''Get'' =
      Some entry_get"
    by (simp add: first_match_def is_sentinel_def entry_matches_def ex_defs)
  have hd: "d_handler entry_get = Some h1" by (simp add: entry_get_def)
  have na: "\<not> d_asynchronous_call entry_get" by (simp add: entry_get_def)
  from na have c: "\<not> d_asynchronous_call entry_get \<or>
      (pthread_create_ret os_ok = 0 \<and> pthread_detach_ret os_ok = 0)" by simp
  have fm2: "first_match [entry_get, entry_any, sentinel] ''s'' ''/org/x'' ''i'' ''Set'' =
      Some entry_any"
    by (simp add: first_match_def is_sentinel_def entry_matches_def ex_defs)
  have hd2: "d_handler entry_any = Some h2" by (simp add: entry_any_def)
  have a2: "d_asynchronous_call entry_any" by (simp add: entry_any_def)
  have r2: "pthread_create_ret os_ok = 0" "pthread_detach_ret os_ok = 0"
    by (simp_all add: os_ok_def)
  from r2 have c2: "\<not> d_asynchronous_call entry_any \<or>
      (pthread_create_ret os_ok = 0 \<and> pthread_detach_ret os_ok = 0)" by simp
  have inline: "g_dbus_dispatch_method_call os_ok [entry_get, entry_any, sentinel]
       ''s'' ''/org/x'' ''i'' ''Get'' 7 () w0 =
     Some (True,
       \<lparr>trace = [Debug ''Called: %s.%s() on %s'' [S ''i'', S ''Get'', S ''/org/x'']],
        heap = [], threads = [], app = [(7, ''h1'')]\<rparr>)"
    using na dispatch_first_match_wins[OF fm hd c, of 7 "()" w0]
    by (simp add: w0_def h1_def del: g_dbus_dispatch_method_call.simps)
  have worker: "g_dbus_dispatch_method_call os_ok [entry_get, entry_any, sentinel]
       ''s'' ''/org/x'' ''i'' ''Set'' 7 () w0 =
     Some (True,
       \<lparr>trace = [Debug ''Called: %s.%s() on %s'' [S ''i'', S ''Set'', S ''/org/x''],
                 Pthread_create 0, Pthread_detach 0],
        heap = [\<lparr>c_handler = h2, c_invocation = 7, c_userdata = ()\<rparr>],
        threads = [\<lparr>start_arg = \<lparr>c_handler = h2, c_invocation = 7, c_userdata = ()\<rparr>,
                    detached = True\<rparr>],
        app = []\<rparr>)"
    using a2 dispatch_first_match_wins[OF fm2 hd2 c2, of 7 "()" w0]
    by (simp add: w0_def del: g_dbus_dispatch_method_call.simps)
  from fm hd na inline fm2 hd2 a2 r2 worker show ?thesis by simp
qed

theorem dispatch_returns_true_counterexample:
  "terminated [entry_any, sentinel] \<and>
   first_match [entry_any, sentinel] ''s'' ''/org/x'' ''i'' ''Get'' = Some entry_any \<and>
   d_handler entry_any = Some h2 \<and>
   g_dbus_dispatch_method_call os_create_fails [entry_any, sentinel]
       ''s'' ''/org/x'' ''i'' ''Get'' 7 () w0 =
     Some (False,
       \<lparr>trace = [Debug ''Called: %s.%s() on %s'' [S ''i'', S ''Get'', S ''/org/x''],
                 Pthread_create 11,
                 Error ''Couldn't create D-Bus call dispatcher: %s'' [Strerror 11]],
        heap = [\<lparr>c_handler = h2, c_invocation = 7, c_userdata = ()\<rparr>],
        threads = [], app = []\<rparr>)"
  by (simp add: terminated_def first_match_def is_sentinel_def run_defs
      entry_any_def sentinel_def w0_def os_create_fails_def)

text \<open>
  C2. For every terminated filter table and every call that no entry of the table
  matches, the dispatcher returns false and leaves the whole state as it was: no handler
  has run, no thread exists that did not before, and nothing was done to the invocation.
\<close>

theorem dispatch_no_match_returns_false:
  assumes "terminated T"
    and "first_match T sender path interface method = None"
  shows "g_dbus_dispatch_method_call sys T sender path interface method invocation userdata w =
     Some (False, w)"
  using assms by (rule dispatch_no_match)

theorem dispatch_no_match_returns_false_witness:
  "terminated [entry_get, sentinel] \<and>
   first_match [entry_get, sentinel] ''s'' ''/org/x'' ''i'' ''Set'' = None \<and>
   g_dbus_dispatch_method_call os_ok [entry_get, sentinel] ''s'' ''/org/x'' ''i'' ''Set'' 7 () w0 =
     Some (False, w0)"
proof -
  have t: "terminated [entry_get, sentinel]"
    by (simp add: terminated_def is_sentinel_def ex_defs)
  have fm: "first_match [entry_get, sentinel] ''s'' ''/org/x'' ''i'' ''Set'' = None"
    by (simp add: first_match_def is_sentinel_def entry_matches_def ex_defs)
  show ?thesis
    using t fm dispatch_no_match_returns_false[OF t fm, of os_ok 7 "()" w0] by simp
qed

text \<open>
  C3 (as amended). For every method call delivered to an interface skeleton whose table
  has no matching entry, \<^verbatim>\<open>interface_skeleton_ex_method_call\<close> logs the error message
  "Couldn't dispatch D-Bus method call" and does nothing else: the invocation is not
  completed and stays pending.
\<close>

theorem adapter_unmatched_only_logs:
  assumes "terminated (vtable_dispatchers iface)"
    and "first_match (vtable_dispatchers iface) sender path interface method = None"
  shows "interface_skeleton_ex_method_call sys iface sender path interface method invocation w =
     Some (w\<lparr>trace := trace w @
       [Error ''Couldn't dispatch D-Bus method call: %s.%s()'' [S interface, S method]]\<rparr>)"
  using dispatch_no_match[OF assms]
  by (simp add: interface_skeleton_ex_method_call_def error_def)

theorem adapter_unmatched_only_logs_witness:
  "terminated (vtable_dispatchers iface_get) \<and>
   first_match (vtable_dispatchers iface_get) ''s'' ''/org/x'' ''i'' ''Set'' = None \<and>
   interface_skeleton_ex_method_call os_ok iface_get ''s'' ''/org/x'' ''i'' ''Set'' 7 w0 =
     Some (w0\<lparr>trace := trace w0 @
       [Error ''Couldn't dispatch D-Bus method call: %s.%s()'' [S ''i'', S ''Set'']]\<rparr>)"
proof -
  have t: "terminated (vtable_dispatchers iface_get)"
    by (simp add: terminated_def is_sentinel_def ex_defs)
  have fm: "first_match (vtable_dispatchers iface_get) ''s'' ''/org/x'' ''i'' ''Set'' = None"
    by (simp add: first_match_def is_sentinel_def entry_matches_def ex_defs)
  show ?thesis
    using t fm adapter_unmatched_only_logs[OF t fm, of os_ok 7 w0] by simp
qed

theorem adapter_completes_unmatched_counterexample:
  "first_match (vtable_dispatchers iface_get) ''s'' ''/org/x'' ''i'' ''Set'' = None \<and>
   g_dbus_dispatch_method_call os_ok (vtable_dispatchers iface_get)
       ''s'' ''/org/x'' ''i'' ''Set'' 7 (iface_userdata iface_get) w0 = Some (False, w0) \<and>
   interface_skeleton_ex_method_call os_ok iface_get ''s'' ''/org/x'' ''i'' ''Set'' 7 w0 =
     Some \<lparr>trace = [Error ''Couldn't dispatch D-Bus method call: %s.%s()'' [S ''i'', S ''Set'']],
           heap = [], threads = [], app = []\<rparr>"
  by (simp add: first_match_def is_sentinel_def entry_matches_def
      interface_skeleton_ex_method_call_def error_def ex_defs)

text \<open>
  C4 (as amended). When the first matching entry is asynchronous and \<^verbatim>\<open>pthread_create\<close>
  fails, the dispatcher returns false, the very value it returns when no entry matches
  (the two outcomes differ in the logged error message only, not in what the caller
  gets); \<^verbatim>\<open>pthread_create\<close> has been called once, no thread exists, the handler has not
  run and the invocation is left uncompleted.
\<close>

theorem launch_failure_returns_false:
  assumes "first_match T sender path interface method = Some d"
    and "d_handler d = Some h"
    and "d_asynchronous_call d"
    and "pthread_create_ret sys \<noteq> 0"
    and "terminated T'"
    and "first_match T' sender' path' interface' method' = None"
  shows "g_dbus_dispatch_method_call sys T sender path interface method invocation userdata w =
     Some (False,
       w\<lparr>trace := trace w @ [Debug ''Called: %s.%s() on %s'' [S interface, S method, S path],
                             Pthread_create (pthread_create_ret sys),
                             Error ''Couldn't create D-Bus call dispatcher: %s''
                               [Strerror (pthread_create_ret sys)]],
         heap := heap w @ [\<lparr>c_handler = h, c_invocation = invocation, c_userdata = userdata\<rparr>]\<rparr>) \<and>
   map_option fst
     (g_dbus_dispatch_method_call sys T sender path interface method invocation userdata w) =
   map_option fst
     (g_dbus_dispatch_method_call sys T' sender' path' interface' method' invocation userdata w)"
proof -
  from first_match_SomeD[OF assms(1)]
  have m: "entry_matches d sender path interface method" by simp
  have "g_dbus_dispatch_method_call sys T sender path interface method invocation userdata w =
    g_dbus_dispatch_method_call sys [d] sender path interface method invocation userdata w"
    by (rule dispatch_first_match[OF assms(1)])
  also have "\<dots> = Some (False,
       w\<lparr>trace := trace w @ [Debug ''Called: %s.%s() on %s'' [S interface, S method, S path],
                             Pthread_create (pthread_create_ret sys),
                             Error ''Couldn't create D-Bus call dispatcher: %s''
                               [Strerror (pthread_create_ret sys)]],
         heap := heap w @ [\<lparr>c_handler = h, c_invocation = invocation, c_userdata = userdata\<rparr>]\<rparr>)"
    using m assms(2,3,4) by (auto simp: run_defs)
  finally show ?thesis
    by (simp add: dispatch_no_match[OF assms(5,6)])
qed

theorem launch_failure_returns_false_witness:
  "first_match [entry_get, entry_any, sentinel] ''s'' ''/org/x'' ''i'' ''Set'' = Some entry_any \<and>
   d_handler entry_any = Some h2 \<and> d_asynchronous_call entry_any \<and>
   pthread_create_ret os_create_fails \<noteq> 0 \<and>
   terminated [entry_get, sentinel] \<and>
   first_match [entry_get, sentinel] ''s'' ''/org/x'' ''i'' ''Set'' = None \<and>
   g_dbus_dispatch_method_call os_create_fails [entry_get, entry_any, sentinel]
       ''s'' ''/org/x'' ''i'' ''Set'' 7 () w0 =
     Some (False,
       \<lparr>trace = [Debug ''Called: %s.%s() on %s'' [S ''i'', S ''Set'', S ''/org/x''],
                 Pthread_create 11,
                 Error ''Couldn't create D-Bus call dispatcher: %s'' [Strerror 11]],
        heap = [\<lparr>c_handler = h2, c_invocation = 7, c_userdata = ()\<rparr>],
        threads = [], app = []\<rparr>) \<and>
   map_option fst (g_dbus_dispatch_method_call os_create_fails [entry_get, entry_any, sentinel]
       ''s'' ''/org/x'' ''i'' ''Set'' 7 () w0) =
   map_option fst (g_dbus_dispatch_method_call os_create_fails [entry_get, sentinel]
       ''s'' ''/org/x'' ''i'' ''Set'' 7 () w0)"
proof -
  have fm: "first_match [entry_get, entry_any, sentinel] ''s'' ''/org/x'' ''i'' ''Set'' =
      Some entry_any"
    by (simp add: first_match_def is_sentinel_def entry_matches_def ex_defs)
  have hd: "d_handler entry_any = Some h2" by (simp add: entry_any_def)
  have a: "d_asynchronous_call entry_any" by (simp add: entry_any_def)
  have r: "pthread_create_ret os_create_fails \<noteq> 0" by (simp add: os_create_fails_def)
  have t: "terminated [entry_get, sentinel]"
    by (simp add: terminated_def is_sentinel_def ex_defs)
  have nm: "first_match [entry_get, sentinel] ''s'' ''/org/x'' ''i'' ''Set'' = None"
    by (simp add: first_match_def is_sentinel_def entry_matches_def ex_defs)
  show ?thesis
    using fm hd a r t nm launch_failure_returns_false[OF fm hd a r t nm, of 7 "()" w0]
    by (auto simp: w0_def os_create_fails_def simp del: g_dbus_dispatch_method_call.simps)
qed

theorem launch_failure_distinct_counterexample:
  "first_match [entry_any, sentinel] ''s'' ''/org/x'' ''i'' ''Get'' = Some entry_any \<and>
   d_asynchronous_call entry_any \<and> pthread_create_ret os_create_fails = 11 \<and>
   first_match [entry_get, sentinel] ''s'' ''/org/x'' ''i'' ''Set'' = None \<and>
   map_option fst (g_dbus_dispatch_method_call os_create_fails [entry_any, sentinel]
       ''s'' ''/org/x'' ''i'' ''Get'' 7 () w0) = Some False \<and>
   map_option fst (g_dbus_dispatch_method_call os_create_fails [entry_get, sentinel]
       ''s'' ''/org/x'' ''i'' ''Set'' 7 () w0) = Some False"
  by (simp add: first_match_def is_sentinel_def run_defs ex_defs)

text \<open>
  C10. When the first matching entry is asynchronous, \<^verbatim>\<open>pthread_create\<close> succeeds and
  \<^verbatim>\<open>pthread_detach\<close> fails, the dispatcher returns false although the worker thread
  exists, holds the matched entry's handler, and calls it when it runs: a false result
  does not mean that no handler was invoked.
\<close>

theorem detach_failure_returns_false_after_launch:
  assumes "first_match T sender path interface method = Some d"
    and "d_handler d = Some h"
    and "d_asynchronous_call d"
    and "pthread_create_ret sys = 0"
    and "pthread_detach_ret sys \<noteq> 0"
  shows "\<exists>w'. g_dbus_dispatch_method_call sys T sender path interface method
                 invocation userdata w = Some (False, w') \<and>
     threads w' = threads w @
       [\<lparr>start_arg = \<lparr>c_handler = h, c_invocation = invocation, c_userdata = userdata\<rparr>,
         detached = False\<rparr>] \<and>
     app w' = app w \<and>
     trace w' = trace w @ [Debug ''Called: %s.%s() on %s'' [S interface, S method, S path],
                           Pthread_create 0, Pthread_detach (pthread_detach_ret sys),
                           Error ''Couldn't detach D-Bus call dispatcher: %s''
                             [Strerror (pthread_detach_ret sys)]] \<and>
     app (dispatch_method_caller (start_arg (last (threads w'))) w') =
       h invocation userdata (app w)"
proof -
  from first_match_SomeD[OF assms(1)]
  have m: "entry_matches d sender path interface method" by simp
  have e: "g_dbus_dispatch_method_call sys T sender path interface method invocation userdata w =
    g_dbus_dispatch_method_call sys [d] sender path interface method invocation userdata w"
    by (rule dispatch_first_match[OF assms(1)])
  show ?thesis
    unfolding e using m assms(2-5)
    by (auto simp: run_defs dispatch_method_caller_def g_free_def)
qed

theorem detach_failure_returns_false_after_launch_witness:
  "first_match [entry_get, entry_any, sentinel] ''s'' ''/org/x'' ''i'' ''Set'' = Some entry_any \<and>
   d_handler entry_any = Some h2 \<and> d_asynchronous_call entry_any \<and>
   pthread_create_ret os_detach_fails = 0 \<and> pthread_detach_ret os_detach_fails \<noteq> 0 \<and>
   (\<exists>w'. g_dbus_dispatch_method_call os_detach_fails [entry_get, entry_any, sentinel]
            ''s'' ''/org/x'' ''i'' ''Set'' 7 () w0 = Some (False, w') \<and>
      threads w' = [\<lparr>start_arg = \<lparr>c_handler = h2, c_invocation = 7, c_userdata = ()\<rparr>,
                     detached = False\<rparr>] \<and>
      app w' = [] \<and>
      app (dispatch_method_caller (start_arg (last (threads w'))) w') = [(7, ''h2'')])"
proof -
  have fm: "first_match [entry_get, entry_any, sentinel] ''s'' ''/org/x'' ''i'' ''Set'' =
      Some entry_any"
    by (simp add: first_match_def is_sentinel_def entry_matches_def ex_defs)
  have hd: "d_handler entry_any = Some h2" by (simp add: entry_any_def)
  have a: "d_asynchronous_call entry_any" by (simp add: entry_any_def)
  have c: "pthread_create_ret os_detach_fails = 0" by (simp add: os_detach_fails_def)
  have r: "pthread_detach_ret os_detach_fails \<noteq> 0" by (simp add: os_detach_fails_def)
  from detach_failure_returns_false_after_launch[OF fm hd a c r, of 7 "()" w0]
  obtain w' where "g_dbus_dispatch_method_call os_detach_fails [entry_get, entry_any, sentinel]
            ''s'' ''/org/x'' ''i'' ''Set'' 7 () w0 = Some (False, w')"
    and "threads w' = [\<lparr>start_arg = \<lparr>c_handler = h2, c_invocation = 7, c_userdata = ()\<rparr>,
                     detached = False\<rparr>]"
    and "app w' = []"
    and "app (dispatch_method_caller (start_arg (last (threads w'))) w') = [(7, ''h2'')]"
    by (auto simp: w0_def h2_def)
  with fm hd a c r show ?thesis by blast
qed

subsection \<open>The blocking helpers\<close>

lemmas bus_defs = g_dbus_connection_send_message_with_reply_sync_def g_dbus_message_to_gerror_def
  g_set_error_def g_dbus_message_new_method_call_def g_dbus_message_set_body_def Let_def

lemmas bus_ex_defs = reply_empty_def reply_error_def reply_no_objects_def conn_replies_def
  conn_closed_def b0_def

text \<open>
  C5. The claim: set-property reports success exactly when no error was produced. The code
  returns \<^verbatim>\<open>error == NULL\<close> instead. With a non-\<^verbatim>\<open>NULL\<close> error out-parameter and a reply
  that is not an error, the helper returns false although the caller's \<^verbatim>\<open>GError *\<close> is
  still \<^verbatim>\<open>NULL\<close>; with a \<^verbatim>\<open>NULL\<close> out-parameter and a failed send it returns true.
\<close>

theorem set_property_success_ignores_error_channel:
  "send_result (conn_replies reply_empty)
     (g_dbus_message_set_body
        (g_dbus_message_new_method_call (Some ''org.bluez'') ''/org/bluez/hci0''
           DBUS_IFACE_PROPERTIES ''Set'')
        (g_variant_new_ssv ''org.bluez.Adapter1'' ''Powered'' (V_boolean True))) =
     Inr reply_empty \<and>
   m_type reply_empty = G_DBUS_MESSAGE_TYPE_METHOD_RETURN \<and>
   fst (g_dbus_set_property (conn_replies reply_empty) ''org.bluez'' ''/org/bluez/hci0''
          ''org.bluez.Adapter1'' ''Powered'' (V_boolean True) (Some 1) b0) = False \<and>
   gerrors (snd (g_dbus_set_property (conn_replies reply_empty) ''org.bluez'' ''/org/bluez/hci0''
          ''org.bluez.Adapter1'' ''Powered'' (V_boolean True) (Some 1) b0)) 1 = None \<and>
   fst (g_dbus_set_property conn_closed ''org.bluez'' ''/org/bluez/hci0''
          ''org.bluez.Adapter1'' ''Powered'' (V_boolean True) None b0) = True"
  by (simp add: g_dbus_set_property_def bus_defs bus_ex_defs)

text \<open>
  C6. The boolean \<^verbatim>\<open>g_dbus_set_property\<close> returns is the test whether the error out-parameter
  itself is \<^verbatim>\<open>NULL\<close>, whatever the connection answered: false for every non-\<^verbatim>\<open>NULL\<close>
  out-parameter, true for \<^verbatim>\<open>NULL\<close>.
\<close>

theorem set_property_result_is_null_test:
  "fst (g_dbus_set_property conn service path interface property val err b) = (err = None)"
  by (simp add: g_dbus_set_property_def Let_def)

text \<open>
  C7. The claim: a reply of type error never yields a success result. For
  \<^verbatim>\<open>g_dbus_set_property\<close> called with a \<^verbatim>\<open>NULL\<close> error out-parameter the code returns true on
  such a reply, and the error is written nowhere.
\<close>

theorem set_property_remote_error_reported_as_success:
  "send_result (conn_replies reply_error)
     (g_dbus_message_set_body
        (g_dbus_message_new_method_call (Some ''org.bluez'') ''/org/bluez/hci0''
           DBUS_IFACE_PROPERTIES ''Set'')
        (g_variant_new_ssv ''org.bluez.Adapter1'' ''Powered'' (V_boolean True))) =
     Inr reply_error \<and>
   m_type reply_error = G_DBUS_MESSAGE_TYPE_ERROR \<and>
   fst (g_dbus_set_property (conn_replies reply_error) ''org.bluez'' ''/org/bluez/hci0''
          ''org.bluez.Adapter1'' ''Powered'' (V_boolean True) None b0) = True \<and>
   gerrors (snd (g_dbus_set_property (conn_replies reply_error) ''org.bluez'' ''/org/bluez/hci0''
          ''org.bluez.Adapter1'' ''Powered'' (V_boolean True) None b0)) = gerrors b0"
  by (simp add: g_dbus_set_property_def bus_defs bus_ex_defs)

text \<open>
  The two reading helpers do report a reply of type error as a failure: they return
  \<^verbatim>\<open>NULL\<close>, and the caller's \<^verbatim>\<open>GError *\<close>, when it was \<^verbatim>\<open>NULL\<close>, holds the error made from
  the reply.
\<close>

lemma get_managed_objects_remote_error:
  assumes "send_result conn (g_dbus_message_new_method_call (Some name) path
             DBUS_IFACE_OBJECT_MANAGER ''GetManagedObjects'') = Inr rep"
    and "m_type rep = G_DBUS_MESSAGE_TYPE_ERROR"
  shows "fst (g_dbus_get_managed_objects conn name path err b) = None"
    and "gerrors b a = None \<Longrightarrow>
         gerrors (snd (g_dbus_get_managed_objects conn name path (Some a) b)) a =
           Some (GError (m_error_name rep)
             (case m_body rep of Some (V_tuple [V_string text]) \<Rightarrow> text | _ \<Rightarrow> []))"
  using assms
  by (simp_all add: g_dbus_get_managed_objects_def g_dbus_connection_send_message_with_reply_sync_def
      g_dbus_message_to_gerror_def g_set_error_def Let_def)

lemma get_property_remote_error:
  assumes "send_result conn (g_dbus_message_set_body
             (g_dbus_message_new_method_call (Some service) path DBUS_IFACE_PROPERTIES ''Get'')
             (g_variant_new_ss interface property)) = Inr rep"
    and "m_type rep = G_DBUS_MESSAGE_TYPE_ERROR"
  shows "fst (g_dbus_get_property conn service path interface property err b) = None"
    and "gerrors b a = None \<Longrightarrow>
         gerrors (snd (g_dbus_get_property conn service path interface property (Some a) b)) a =
           Some (GError (m_error_name rep)
             (case m_body rep of Some (V_tuple [V_string text]) \<Rightarrow> text | _ \<Rightarrow> []))"
  using assms
  by (simp_all add: g_dbus_get_property_def g_dbus_connection_send_message_with_reply_sync_def
      g_dbus_message_to_gerror_def g_set_error_def Let_def)

text \<open>
  C8. Every call of \<^verbatim>\<open>g_dbus_connection_emit_properties_changed\<close> hands exactly one signal
  to the connection: a broadcast (no destination) from the given path, on the properties
  interface, named \<^verbatim>\<open>PropertiesChanged\<close>, whose parameters are the given interface name,
  the given changed properties and an empty list of invalidated properties, of type
  \<^verbatim>\<open>(sa{sv}as)\<close>. The result is the connection's answer.
\<close>

theorem emit_properties_changed_one_signal:
  "emit_signal_calls (snd (g_dbus_connection_emit_properties_changed conn path interface props err b)) =
     emit_signal_calls b @
       [\<lparr>sig_destination = None, sig_path = path, sig_interface = DBUS_IFACE_PROPERTIES,
         sig_name = ''PropertiesChanged'',
         sig_parameters = V_tuple [V_string interface,
           V_array (T_dict_entry T_string T_variant)
             (map (\<lambda>(k, v). V_dict_entry (V_string k) (V_variant v)) props),
           V_array T_string []]\<rparr>] \<and>
   g_variant_get_type_string (V_tuple [V_string interface,
           V_array (T_dict_entry T_string T_variant)
             (map (\<lambda>(k, v). V_dict_entry (V_string k) (V_variant v)) props),
           V_array T_string []]) = ''(sa{sv}as)'' \<and>
   fst (g_dbus_connection_emit_properties_changed conn path interface props err b) =
     (emit_result conn = None)"
  by (simp add: g_dbus_connection_emit_properties_changed_def g_dbus_connection_emit_signal_def
      g_variant_new_sasvas_def g_variant_get_type_string_def g_set_error_def Let_def
      split: option.splits)

theorem emit_properties_changed_one_signal_witness:
  "emit_signal_calls (snd (g_dbus_connection_emit_properties_changed (conn_replies reply_empty)
      ''/org/x'' ''org.x.Iface'' [(''Volume'', V_int32 50)] None b0)) =
     [\<lparr>sig_destination = None, sig_path = ''/org/x'',
       sig_interface = ''org.freedesktop.DBus.Properties'',
       sig_name = ''PropertiesChanged'',
       sig_parameters = V_tuple [V_string ''org.x.Iface'',
         V_array (T_dict_entry T_string T_variant)
           [V_dict_entry (V_string ''Volume'') (V_variant (V_int32 50))],
         V_array T_string []]\<rparr>] \<and>
   fst (g_dbus_connection_emit_properties_changed (conn_replies reply_empty)
      ''/org/x'' ''org.x.Iface'' [(''Volume'', V_int32 50)] None b0) = True"
  using emit_properties_changed_one_signal[of "conn_replies reply_empty" "''/org/x''"
      "''org.x.Iface''" "[(''Volume'', V_int32 50)]" None b0]
  by (simp add: b0_def conn_replies_def DBUS_IFACE_PROPERTIES_def)

text \<open>
  C9. When the reply to \<^verbatim>\<open>GetManagedObjects\<close> is not an error and its body holds no object,
  \<^verbatim>\<open>g_dbus_get_managed_objects\<close> returns an iterator, not \<^verbatim>\<open>NULL\<close>; the iterator is at its end
  at once, and no error is written.
\<close>

theorem get_managed_objects_no_children:
  assumes "send_result conn (g_dbus_message_new_method_call (Some name) path
             DBUS_IFACE_OBJECT_MANAGER ''GetManagedObjects'') = Inr rep"
    and "m_type rep \<noteq> G_DBUS_MESSAGE_TYPE_ERROR"
    and "m_body rep = Some (V_tuple [V_array
           (T_dict_entry T_object_path
              (T_array (T_dict_entry T_string (T_array (T_dict_entry T_string T_variant))))) []])"
  shows "\<exists>it. fst (g_dbus_get_managed_objects conn name path err b) = Some it \<and>
     g_variant_iter_next it = None \<and>
     gerrors (snd (g_dbus_get_managed_objects conn name path err b)) = gerrors b"
  using assms
  by (simp add: g_dbus_get_managed_objects_def g_dbus_connection_send_message_with_reply_sync_def
      g_variant_get_iter_def g_variant_get_type_string_def g_variant_iter_next_def Let_def)

theorem get_managed_objects_no_children_witness:
  "send_result (conn_replies reply_no_objects)
     (g_dbus_message_new_method_call (Some ''org.bluez'') ''/''
        DBUS_IFACE_OBJECT_MANAGER ''GetManagedObjects'') = Inr reply_no_objects \<and>
   m_type reply_no_objects \<noteq> G_DBUS_MESSAGE_TYPE_ERROR \<and>
   m_body reply_no_objects = Some (V_tuple [V_array
       (T_dict_entry T_object_path
          (T_array (T_dict_entry T_string (T_array (T_dict_entry T_string T_variant))))) []]) \<and>
   (\<exists>it. fst (g_dbus_get_managed_objects (conn_replies reply_no_objects) ''org.bluez'' ''/''
              (Some 1) b0) = Some it \<and>
      g_variant_iter_next it = None \<and>
      gerrors (snd (g_dbus_get_managed_objects (conn_replies reply_no_objects) ''org.bluez'' ''/''
              (Some 1) b0)) = gerrors b0)"
proof -
  have s: "send_result (conn_replies reply_no_objects)
     (g_dbus_message_new_method_call (Some ''org.bluez'') ''/''
        DBUS_IFACE_OBJECT_MANAGER ''GetManagedObjects'') = Inr reply_no_objects"
    by (simp add: conn_replies_def)
  have t: "m_type reply_no_objects \<noteq> G_DBUS_MESSAGE_TYPE_ERROR"
    by (simp add: reply_no_objects_def)
  have bd: "m_body reply_no_objects = Some (V_tuple [V_array
       (T_dict_entry T_object_path
          (T_array (T_dict_entry T_string (T_array (T_dict_entry T_string T_variant))))) []])"
    by (simp add: reply_no_objects_def)
  from get_managed_objects_no_children[OF s t bd, of "Some 1" b0] s t bd
  show ?thesis by blast
qed

end
